theory Spec2Isabelle
  imports Complex_Main "HOL-Library.Sublist"
begin

section \<open>JavaScript numbers\<close>

text \<open>
  The editor computes with JavaScript numbers.  A number is modelled as a real, one of
  the two infinities, or NaN.  Finite arithmetic is exact (no rounding to binary64) and
  the two zeros are not distinguished: a zero divisor counts as +0.  The special values
  are kept because the program's behaviour at a vanishing denominator and at text that
  does not parse depends on them.  Since rounding is absent, a difference that binary64
  cancels to exactly 0 (such as \<open>1 - dot * dot\<close> of the zoom update for a ray almost
  parallel to the camera direction) can be a tiny nonzero real here; the results on the
  zoom update below do not rest on the value of that quotient, apart from the one input
  evaluated for C2, where the exact and the rounded computation agree that it is 0 / 0.
\<close>

datatype jsnum = Num real | PosInf | NegInf | NaN

fun js_isNaN :: "jsnum \<Rightarrow> bool" where
  "js_isNaN NaN = True"
| "js_isNaN _ = False"

text \<open>The relational operators: every comparison with NaN is false.\<close>

fun js_lt :: "jsnum \<Rightarrow> jsnum \<Rightarrow> bool" where
  "js_lt (Num x) (Num y) = (x < y)"
| "js_lt NaN _ = False"
| "js_lt _ NaN = False"
| "js_lt PosInf _ = False"
| "js_lt _ PosInf = True"
| "js_lt _ NegInf = False"
| "js_lt NegInf (Num y) = True"

fun js_le :: "jsnum \<Rightarrow> jsnum \<Rightarrow> bool" where
  "js_le (Num x) (Num y) = (x \<le> y)"
| "js_le NaN _ = False"
| "js_le _ NaN = False"
| "js_le NegInf _ = True"
| "js_le _ PosInf = True"
| "js_le _ NegInf = False"
| "js_le PosInf (Num y) = False"

definition js_gt :: "jsnum \<Rightarrow> jsnum \<Rightarrow> bool" where
  "js_gt a b = js_lt b a"

definition js_ge :: "jsnum \<Rightarrow> jsnum \<Rightarrow> bool" where
  "js_ge a b = js_le b a"

text \<open>\<^verbatim>\<open>Math.min\<close> and \<^verbatim>\<open>Math.max\<close>: NaN if an argument is NaN.\<close>

definition js_min :: "jsnum \<Rightarrow> jsnum \<Rightarrow> jsnum" where
  "js_min a b = (if js_isNaN a \<or> js_isNaN b then NaN else if js_lt b a then b else a)"

definition js_max :: "jsnum \<Rightarrow> jsnum \<Rightarrow> jsnum" where
  "js_max a b = (if js_isNaN a \<or> js_isNaN b then NaN else if js_lt a b then b else a)"

text \<open>The infinity with the sign of a real; NaN at zero (\<open>0 * Infinity\<close>, \<open>0 / 0\<close>).\<close>

definition inf_of_sign :: "real \<Rightarrow> jsnum" where
  "inf_of_sign s = (if 0 < s then PosInf else if s < 0 then NegInf else NaN)"

fun js_neg :: "jsnum \<Rightarrow> jsnum" where
  "js_neg (Num x) = Num (- x)"
| "js_neg PosInf = NegInf"
| "js_neg NegInf = PosInf"
| "js_neg NaN = NaN"

fun js_add :: "jsnum \<Rightarrow> jsnum \<Rightarrow> jsnum" where
  "js_add (Num x) (Num y) = Num (x + y)"
| "js_add NaN _ = NaN"
| "js_add _ NaN = NaN"
| "js_add PosInf NegInf = NaN"
| "js_add NegInf PosInf = NaN"
| "js_add PosInf _ = PosInf"
| "js_add NegInf _ = NegInf"
| "js_add (Num x) b = b"

definition js_sub :: "jsnum \<Rightarrow> jsnum \<Rightarrow> jsnum" where
  "js_sub a b = js_add a (js_neg b)"

fun js_mul :: "jsnum \<Rightarrow> jsnum \<Rightarrow> jsnum" where
  "js_mul (Num x) (Num y) = Num (x * y)"
| "js_mul NaN _ = NaN"
| "js_mul _ NaN = NaN"
| "js_mul PosInf (Num y) = inf_of_sign y"
| "js_mul NegInf (Num y) = inf_of_sign (- y)"
| "js_mul (Num x) PosInf = inf_of_sign x"
| "js_mul (Num x) NegInf = inf_of_sign (- x)"
| "js_mul PosInf PosInf = PosInf"
| "js_mul NegInf NegInf = PosInf"
| "js_mul PosInf NegInf = NegInf"
| "js_mul NegInf PosInf = NegInf"

fun js_div :: "jsnum \<Rightarrow> jsnum \<Rightarrow> jsnum" where
  "js_div (Num x) (Num y) = (if y = 0 then inf_of_sign x else Num (x / y))"
| "js_div NaN _ = NaN"
| "js_div _ NaN = NaN"
| "js_div (Num x) _ = Num 0"
| "js_div PosInf (Num y) = (if 0 \<le> y then PosInf else NegInf)"
| "js_div NegInf (Num y) = (if 0 \<le> y then NegInf else PosInf)"
| "js_div _ _ = NaN"

fun js_sqrt :: "jsnum \<Rightarrow> jsnum" where
  "js_sqrt (Num x) = (if 0 \<le> x then Num (sqrt x) else NaN)"
| "js_sqrt PosInf = PosInf"
| "js_sqrt _ = NaN"

fun js_sin :: "jsnum \<Rightarrow> jsnum" where
  "js_sin (Num x) = Num (sin x)"
| "js_sin _ = NaN"

fun js_cos :: "jsnum \<Rightarrow> jsnum" where
  "js_cos (Num x) = Num (cos x)"
| "js_cos _ = NaN"

fun js_acos :: "jsnum \<Rightarrow> jsnum" where
  "js_acos (Num x) = (if - 1 \<le> x \<and> x \<le> 1 then Num (arccos x) else NaN)"
| "js_acos _ = NaN"

text \<open>
  \<^verbatim>\<open>Math.atan2(y, x)\<close> on reals: the angle of the point \<open>(x, y)\<close> in \<open>(-\<pi>, \<pi>]\<close>,
  and 0 at the origin.
\<close>

definition atan2 :: "real \<Rightarrow> real \<Rightarrow> real" where
  "atan2 y x =
     (if 0 < x then arctan (y / x)
      else if x < 0 then (if 0 \<le> y then arctan (y / x) + pi else arctan (y / x) - pi)
      else if 0 < y then pi / 2
      else if y < 0 then - (pi / 2)
      else 0)"

fun js_atan2 :: "jsnum \<Rightarrow> jsnum \<Rightarrow> jsnum" where
  "js_atan2 (Num y) (Num x) = Num (atan2 y x)"
| "js_atan2 NaN _ = NaN"
| "js_atan2 _ NaN = NaN"
| "js_atan2 PosInf PosInf = Num (pi / 4)"
| "js_atan2 PosInf NegInf = Num (3 * pi / 4)"
| "js_atan2 NegInf PosInf = Num (- (pi / 4))"
| "js_atan2 NegInf NegInf = Num (- (3 * pi / 4))"
| "js_atan2 PosInf (Num x) = Num (pi / 2)"
| "js_atan2 NegInf (Num x) = Num (- (pi / 2))"
| "js_atan2 (Num y) PosInf = Num 0"
| "js_atan2 (Num y) NegInf = (if 0 \<le> y then Num pi else Num (- pi))"

text \<open>\<^verbatim>\<open>Math.round\<close>: the nearest integer, a tie going up, that is \<open>\<lfloor>x + 1/2\<rfloor>\<close>.\<close>

fun js_round :: "jsnum \<Rightarrow> jsnum" where
  "js_round (Num x) = Num (of_int (round x))"
| "js_round a = a"

text \<open>The remainder operator \<^verbatim>\<open>%\<close>: the quotient is truncated towards zero.\<close>

definition trunc :: "real \<Rightarrow> int" where
  "trunc x = (if 0 \<le> x then \<lfloor>x\<rfloor> else \<lceil>x\<rceil>)"

fun js_rem :: "jsnum \<Rightarrow> jsnum \<Rightarrow> jsnum" where
  "js_rem (Num a) (Num b) = (if b = 0 then NaN else Num (a - b * of_int (trunc (a / b))))"
| "js_rem NaN _ = NaN"
| "js_rem _ NaN = NaN"
| "js_rem (Num a) _ = Num a"
| "js_rem _ _ = NaN"

text \<open>\<^verbatim>\<open>THREE.MathUtils.clamp(value, min, max)\<close> is \<^verbatim>\<open>Math.max(min, Math.min(max, value))\<close>.\<close>

definition three_clamp :: "jsnum \<Rightarrow> jsnum \<Rightarrow> jsnum \<Rightarrow> jsnum" where
  "three_clamp v lo hi = js_max lo (js_min hi v)"

text \<open>A finite number within closed bounds.\<close>

fun in_range :: "real \<Rightarrow> real \<Rightarrow> jsnum \<Rightarrow> bool" where
  "in_range lo hi (Num x) = (lo \<le> x \<and> x \<le> hi)"
| "in_range lo hi _ = False"

section \<open>The camera pose (types.ts)\<close>

text \<open>
  Strings are sequences of UTF-8 bytes; the degree sign is the two bytes C2 B0.
  The shot type is a string at run time: the shot-type button stores the table's
  \<^verbatim>\<open>value\<close> through a cast.
\<close>

record CameraSettings =
  azimuth :: jsnum
  elevation :: jsnum
  distance :: jsnum
  shotType :: string

definition initial_settings :: CameraSettings where
  "initial_settings =
     \<lparr>azimuth = Num 45, elevation = Num 35, distance = Num 1, shotType = ''medium''\<rparr>"

section \<open>Preset buttons (App.tsx)\<close>

definition setGameAngle :: "jsnum \<Rightarrow> CameraSettings \<Rightarrow> CameraSettings" where
  "setGameAngle azim prev = prev\<lparr>azimuth := azim, elevation := Num 35\<rparr>"

text \<open>The direction table; the entry with angle -1 is the centre cell, which is no button.\<close>

definition directions :: "real list" where
  "directions = [315, 0, 45, 270, - 1, 90, 225, 180, 135]"

definition direction_buttons :: "real list" where
  "direction_buttons = filter (\<lambda>angle. angle \<noteq> - 1) directions"

definition shotTypeOptions :: "(string \<times> real) list" where
  "shotTypeOptions = [(''long'', 1.4), (''medium'', 1.0), (''close'', 0.7), (''extreme'', 0.5)]"

definition shot_button :: "string \<times> real \<Rightarrow> CameraSettings \<Rightarrow> CameraSettings" where
  "shot_button opt p = p\<lparr>shotType := fst opt, distance := Num (snd opt)\<rparr>"

section \<open>Free-text number fields (App.tsx, EditableNumber)\<close>

text \<open>
  \<^verbatim>\<open>handleBlur\<close> commits the text of a number field.  \<^verbatim>\<open>parseFloat\<close> belongs to the
  language and is a parameter; it returns NaN for text that is no number.  The result
  is the number handed to \<^verbatim>\<open>onChange\<close>.
\<close>

definition handleBlur :: "(string \<Rightarrow> jsnum) \<Rightarrow> string \<Rightarrow> jsnum \<Rightarrow> jsnum \<Rightarrow> jsnum \<Rightarrow> jsnum" where
  "handleBlur parseFloat tempValue val lo hi =
     (let num = parseFloat tempValue;
          num = (if js_isNaN num then val else num);
          num = js_min (js_max num lo) hi
      in num)"

section \<open>The prompt (CameraViewer.tsx, generatePrompt)\<close>

definition degree_sign :: string where
  "degree_sign = [CHR 0xC2, CHR 0xB0]"

definition horizontalDesc :: "jsnum \<Rightarrow> string" where
  "horizontalDesc yaw =
     (if js_ge yaw (Num 337.5) \<or> js_lt yaw (Num 22.5) then ''Front view (0'' @ degree_sign @ '')''
      else if js_ge yaw (Num 22.5) \<and> js_lt yaw (Num 67.5) then ''Front-right 45'' @ degree_sign @ '' angle''
      else if js_ge yaw (Num 67.5) \<and> js_lt yaw (Num 112.5) then ''Right side 90'' @ degree_sign @ '' profile''
      else if js_ge yaw (Num 112.5) \<and> js_lt yaw (Num 157.5) then ''Rear-right 135'' @ degree_sign @ '' angle''
      else if js_ge yaw (Num 157.5) \<and> js_lt yaw (Num 202.5) then ''Back view 180'' @ degree_sign
      else if js_ge yaw (Num 202.5) \<and> js_lt yaw (Num 247.5) then ''Rear-left 225'' @ degree_sign @ '' angle''
      else if js_ge yaw (Num 247.5) \<and> js_lt yaw (Num 292.5) then ''Left side 270'' @ degree_sign @ '' profile''
      else ''Front-left 315'' @ degree_sign @ '' angle'')"

definition verticalDesc :: "jsnum \<Rightarrow> string" where
  "verticalDesc pitch =
     (if js_gt pitch (Num 45) then ''Bird's eye view (High overhead)''
      else if js_gt pitch (Num 15) then ''High angle shot looking down''
      else if js_lt pitch (Num (- 15)) then ''Low angle hero shot looking up''
      else ''Eye-level horizontal view'')"

text \<open>The \<^verbatim>\<open>switch\<close> has no default: another tag leaves the empty string.\<close>

definition shotDesc :: "string \<Rightarrow> string" where
  "shotDesc st =
     (if st = ''long'' then ''Wide shot showing more context''
      else if st = ''medium'' then ''Medium shot, standard framing''
      else if st = ''close'' then ''Close-up shot focusing on detail''
      else if st = ''extreme'' then ''Extreme close-up macro detail''
      else [])"

text \<open>The conversion of a number to text in the template is the parameter \<open>toString\<close>.\<close>

definition generatePrompt :: "(jsnum \<Rightarrow> string) \<Rightarrow> CameraSettings \<Rightarrow> string" where
  "generatePrompt toString settings =
     (let yaw = azimuth settings; pitch = elevation settings
      in ''Product photography, Camera Yaw: '' @ toString yaw
         @ '' degrees, Camera Pitch: '' @ toString pitch @ '' degrees. ''
         @ horizontalDesc yaw @ '', '' @ verticalDesc pitch @ '', ''
         @ shotDesc (shotType settings)
         @ ''. Pure white solid background, high-end studio lighting, sharp focus, volumetric lighting, spatial consistency.'')"

section \<open>Reference images (App.tsx, handleFileUpload and removeImage)\<close>

text \<open>\<^verbatim>\<open>xs.slice(0, end)\<close>: a negative \<open>end\<close> counts from the end of the array.\<close>

definition slice0 :: "'a list \<Rightarrow> int \<Rightarrow> 'a list" where
  "slice0 xs e = take (nat (if e < 0 then int (length xs) + e else e)) xs"

text \<open>
  A file is identified with the data URL its reader delivers.  The readers started by an
  upload finish later and in any order, so the state holds the reads still in flight.
\<close>

record upload_state =
  inputImages :: "string list"
  reading :: "string list"

definition no_images :: upload_state where
  "no_images = \<lparr>inputImages = [], reading = []\<rparr>"

definition filesToProcess :: "upload_state \<Rightarrow> string list \<Rightarrow> string list" where
  "filesToProcess st files =
     (let remainingSlots = 3 - int (length (inputImages st)) in slice0 files remainingSlots)"

definition handleFileUpload :: "string list option \<Rightarrow> upload_state \<Rightarrow> upload_state" where
  "handleFileUpload files st =
     (case files of
        None \<Rightarrow> st
      | Some fs \<Rightarrow> st\<lparr>reading := reading st @ filesToProcess st fs\<rparr>)"

text \<open>The \<^verbatim>\<open>onload\<close> callback of the read at position \<open>k\<close> among those in flight.\<close>

definition reader_onload :: "nat \<Rightarrow> upload_state \<Rightarrow> upload_state" where
  "reader_onload k st =
     (if k < length (reading st)
      then st\<lparr>inputImages := slice0 (inputImages st @ [reading st ! k]) 3,
              reading := take k (reading st) @ drop (Suc k) (reading st)\<rparr>
      else st)"

definition removeImage :: "nat \<Rightarrow> upload_state \<Rightarrow> upload_state" where
  "removeImage index st =
     st\<lparr>inputImages := map snd (filter (\<lambda>(i, img). i \<noteq> index)
                                   (zip [0..<length (inputImages st)] (inputImages st)))\<rparr>"

datatype upload_event = FileChange "string list option" | ReaderLoad nat | RemoveImage nat

fun upload_step :: "upload_state \<Rightarrow> upload_event \<Rightarrow> upload_state" where
  "upload_step st (FileChange files) = handleFileUpload files st"
| "upload_step st (ReaderLoad k) = reader_onload k st"
| "upload_step st (RemoveImage index) = removeImage index st"

definition upload_run :: "upload_event list \<Rightarrow> upload_state" where
  "upload_run evs = foldl upload_step no_images evs"

section \<open>Generation (geminiService.ts, generateAngledImage; App.tsx, handleGenerate)\<close>

text \<open>
  What the service answers to one request: the call is rejected with a message, or it
  replies, and the reply is read as the parts of its first candidate (none when the
  candidate is missing), each part with or without inline data.
\<close>

datatype response = Rejected string | Replied "string option list"

definition no_image_message :: string where
  "no_image_message =
     [CHR 0xE6, CHR 0xA8, CHR 0xA1, CHR 0xE5, CHR 0x9E, CHR 0x8B, CHR 0xE6, CHR 0x9C,
      CHR 0xAA, CHR 0xE8, CHR 0xBF, CHR 0x94, CHR 0xE5, CHR 0x9B, CHR 0x9E, CHR 0xE5,
      CHR 0x9B, CHR 0xBE, CHR 0xE5, CHR 0x83, CHR 0x8F, CHR 0xEF, CHR 0xBC, CHR 0x8C,
      CHR 0xE8, CHR 0xAF, CHR 0xB7, CHR 0xE6, CHR 0xA3, CHR 0x80, CHR 0xE6, CHR 0x9F,
      CHR 0xA5, CHR 0xE8, CHR 0xBE, CHR 0x93, CHR 0xE5, CHR 0x85, CHR 0xA5, CHR 0xE6,
      CHR 0x88, CHR 0x96, CHR 0xE7, CHR 0xA8, CHR 0x8D, CHR 0xE5, CHR 0x90, CHR 0x8E,
      CHR 0xE9, CHR 0x87, CHR 0x8D, CHR 0xE8, CHR 0xAF, CHR 0x95, CHR 0xE3, CHR 0x80,
      CHR 0x82]"

definition render_failed_message :: string where
  "render_failed_message =
     [CHR 0xE6, CHR 0xB8, CHR 0xB2, CHR 0xE6, CHR 0x9F, CHR 0x93, CHR 0xE5, CHR 0xA4,
      CHR 0xB1, CHR 0xE8, CHR 0xB4, CHR 0xA5, CHR 0xEF, CHR 0xBC, CHR 0x8C, CHR 0xE8,
      CHR 0xAF, CHR 0xB7, CHR 0xE9, CHR 0x87, CHR 0x8D, CHR 0xE8, CHR 0xAF, CHR 0x95,
      CHR 0xE3, CHR 0x80, CHR 0x82]"

definition no_reference_message :: string where
  "no_reference_message =
     [CHR 0xE8, CHR 0xAF, CHR 0xB7, CHR 0xE8, CHR 0x87, CHR 0xB3, CHR 0xE5, CHR 0xB0,
      CHR 0x91, CHR 0xE4, CHR 0xB8, CHR 0x8A, CHR 0xE4, CHR 0xBC, CHR 0xA0, CHR 0xE4,
      CHR 0xB8, CHR 0x80, CHR 0xE5, CHR 0xBC, CHR 0xA0, CHR 0xE5, CHR 0x8F, CHR 0x82,
      CHR 0xE8, CHR 0x80, CHR 0x83, CHR 0xE5, CHR 0x9B, CHR 0xBE, CHR 0xE3, CHR 0x80,
      CHR 0x82]"

text \<open>
  \<^verbatim>\<open>generateAngledImage\<close> on the service's answer: \<open>Inl\<close> is the message of the error
  thrown, \<open>Inr\<close> the image URL returned.
\<close>

definition generateAngledImage :: "response \<Rightarrow> string + string" where
  "generateAngledImage r =
     (case r of
        Rejected msg \<Rightarrow> Inl msg
      | Replied parts \<Rightarrow>
          (let imageUrl = (case find (\<lambda>part. part \<noteq> None) parts of
                             Some (Some d) \<Rightarrow> ''data:image/png;base64,'' @ d
                           | _ \<Rightarrow> [])
           in if imageUrl = [] then Inl no_image_message else Inr imageUrl))"

record GenerationState =
  isGenerating :: bool
  error :: "string option"
  outputImageUrls :: "string list"

text \<open>
  What the page renders from the generation state (App.tsx, the elements at lines
  261-269, 282-300 and 421-432): the progress overlay with its two numbers while
  generating, the placeholder or the grid of result images, and the state of the
  generate button.  No element of the page reads the \<^verbatim>\<open>error\<close> field.
\<close>

record generation_view =
  progress_overlay :: "(nat \<times> nat) option"
  placeholder_shown :: bool
  shown_images :: "string list"
  button_disabled :: bool
  button_busy :: bool

definition render_generation :: "GenerationState \<Rightarrow> nat \<Rightarrow> string list \<Rightarrow> generation_view" where
  "render_generation genState batchSize images =
     \<lparr>progress_overlay =
        (if isGenerating genState
         then Some (length (outputImageUrls genState) + 1, batchSize) else None),
      placeholder_shown = (length (outputImageUrls genState) = 0),
      shown_images = outputImageUrls genState,
      button_disabled = (isGenerating genState \<or> length images = 0),
      button_busy = isGenerating genState\<rparr>"

text \<open>
  The loop of \<^verbatim>\<open>handleGenerate\<close>.  \<open>call i\<close> is the service's answer to the request
  number \<open>i\<close> (from 0); the second component of the result counts the requests issued.
\<close>

function batch_loop ::
  "(nat \<Rightarrow> response) \<Rightarrow> nat \<Rightarrow> nat \<Rightarrow> string list \<Rightarrow> (string + string list) \<times> nat" where
  "batch_loop call i batchSize results =
     (if i < batchSize then
        (case generateAngledImage (call i) of
           Inl err \<Rightarrow> (Inl err, Suc i)
         | Inr url \<Rightarrow> batch_loop call (Suc i) batchSize (results @ [url]))
      else (Inr results, i))"
  by pat_completeness auto
termination
  by (relation "measure (\<lambda>(call, i, batchSize, results). batchSize - i)") auto

text \<open>
  \<open>service i images prompt ratio\<close> is the answer to request \<open>i\<close>.  The result is the
  generation state shown when the handler has finished, and the number of requests.
\<close>

definition handleGenerate ::
  "(nat \<Rightarrow> string list \<Rightarrow> string \<Rightarrow> string \<Rightarrow> response) \<Rightarrow> (jsnum \<Rightarrow> string) \<Rightarrow> string list
     \<Rightarrow> CameraSettings \<Rightarrow> nat \<Rightarrow> string \<Rightarrow> GenerationState \<Rightarrow> GenerationState \<times> nat" where
  "handleGenerate service toString images settings batchSize aspectRatio genState =
     (if length images = 0 then (genState\<lparr>error := Some no_reference_message\<rparr>, 0)
      else
        (let started = genState\<lparr>isGenerating := True, error := None, outputImageUrls := []\<rparr>;
             prompt = generatePrompt toString settings
         in case batch_loop (\<lambda>i. service i images prompt aspectRatio) 0 batchSize [] of
              (Inr results, n) \<Rightarrow> (started\<lparr>outputImageUrls := results, isGenerating := False\<rparr>, n)
            | (Inl msg, n) \<Rightarrow>
                (started\<lparr>isGenerating := False,
                         error := Some (if msg = [] then render_failed_message else msg)\<rparr>, n)))"

section \<open>The interactive scene (CameraViewer.tsx, InteractiveScene)\<close>

subsection \<open>Vectors\<close>

text \<open>The methods of \<^verbatim>\<open>THREE.Vector3\<close> that the scene calls, on triples of numbers.\<close>

type_synonym vec3 = "jsnum \<times> jsnum \<times> jsnum"

fun v_dot :: "vec3 \<Rightarrow> vec3 \<Rightarrow> jsnum" where
  "v_dot (x, y, z) (x', y', z') = js_add (js_add (js_mul x x') (js_mul y y')) (js_mul z z')"

fun v_add :: "vec3 \<Rightarrow> vec3 \<Rightarrow> vec3" where
  "v_add (x, y, z) (x', y', z') = (js_add x x', js_add y y', js_add z z')"

fun v_sub :: "vec3 \<Rightarrow> vec3 \<Rightarrow> vec3" where
  "v_sub (x, y, z) (x', y', z') = (js_sub x x', js_sub y y', js_sub z z')"

fun v_multiplyScalar :: "vec3 \<Rightarrow> jsnum \<Rightarrow> vec3" where
  "v_multiplyScalar (x, y, z) s = (js_mul x s, js_mul y s, js_mul z s)"

fun v_negate :: "vec3 \<Rightarrow> vec3" where
  "v_negate (x, y, z) = (js_neg x, js_neg y, js_neg z)"

fun v_length :: "vec3 \<Rightarrow> jsnum" where
  "v_length (x, y, z) = js_sqrt (js_add (js_add (js_mul x x) (js_mul y y)) (js_mul z z))"

text \<open>
  \<^verbatim>\<open>normalize()\<close> is \<^verbatim>\<open>divideScalar(length() || 1)\<close>, and \<^verbatim>\<open>divideScalar(s)\<close> multiplies
  by \<^verbatim>\<open>1 / s\<close>; a length that is 0 or NaN is replaced by 1.
\<close>

definition v_normalize :: "vec3 \<Rightarrow> vec3" where
  "v_normalize v =
     (let len = v_length v;
          s = (if len = Num 0 \<or> js_isNaN len then Num 1 else len)
      in v_multiplyScalar v (js_div (Num 1) s))"

subsection \<open>Camera position\<close>

definition VISUAL_SCALE :: jsnum where
  "VISUAL_SCALE = Num 2.5"

definition scene_radius :: "CameraSettings \<Rightarrow> jsnum" where
  "scene_radius settings = js_mul (distance settings) VISUAL_SCALE"

definition cameraPos :: "CameraSettings \<Rightarrow> vec3" where
  "cameraPos settings =
     (let phi = js_mul (js_sub (Num 90) (elevation settings)) (js_div (Num pi) (Num 180));
          theta = js_mul (azimuth settings) (js_div (Num pi) (Num 180));
          radius = scene_radius settings;
          x = js_mul (js_mul radius (js_sin phi)) (js_sin theta);
          y = js_mul radius (js_cos phi);
          z = js_mul (js_mul radius (js_sin phi)) (js_cos theta)
      in (x, y, z))"

subsection \<open>Dragging\<close>

datatype dragMode = DragNone | DragOrbit | DragDistance

text \<open>
  What the viewer supplies at a pointer move: the origin and direction of the pointer
  ray, and the outcome of \<^verbatim>\<open>ray.intersectSphere(sphere, target)\<close> on the sphere of the
  current radius about the origin, \<open>None\<close> when the ray misses (the call then leaves
  \<^verbatim>\<open>target\<close> as it was created, the zero vector).
\<close>

record pointer_ray =
  rayOrigin :: vec3
  rayDir :: vec3
  sphereHit :: "vec3 option"

text \<open>
  The angles recovered from a point, in degrees and before rounding: the new elevation
  and the new azimuth, the azimuth after 360 is added to a negative value.
\<close>

definition orbit_angles :: "vec3 \<Rightarrow> jsnum \<times> jsnum" where
  "orbit_angles target =
     (case target of (tx, ty, tz) \<Rightarrow>
        (let r = v_length target;
             newPhi = js_acos (three_clamp (js_div ty r) (Num (- 1)) (Num 1));
             newTheta = js_atan2 tx tz;
             newElev = js_sub (Num 90) (js_div (js_mul newPhi (Num 180)) (Num pi));
             newAzim = js_div (js_mul newTheta (Num 180)) (Num pi);
             newAzim = (if js_lt newAzim (Num 0) then js_add newAzim (Num 360) else newAzim)
         in (newElev, newAzim)))"

definition handlePointerMove :: "dragMode \<Rightarrow> CameraSettings \<Rightarrow> pointer_ray \<Rightarrow> CameraSettings" where
  "handlePointerMove mode settings ray =
     (case mode of
        DragNone \<Rightarrow> settings
      | DragOrbit \<Rightarrow>
          (let target = (case sphereHit ray of None \<Rightarrow> (Num 0, Num 0, Num 0) | Some p \<Rightarrow> p)
           in if js_gt (v_length target) (Num 0)
              then (case orbit_angles target of (newElev, newAzim) \<Rightarrow>
                      settings\<lparr>azimuth := js_rem (js_round newAzim) (Num 360),
                               elevation := three_clamp (js_round newElev) (Num (- 30)) (Num 60)\<rparr>)
              else settings)
      | DragDistance \<Rightarrow>
          (let currentDir = v_normalize (cameraPos settings);
               dot = v_dot (rayDir ray) currentDir;
               t = js_div (v_dot (v_negate (rayOrigin ray))
                                 (v_sub currentDir (v_multiplyScalar (rayDir ray) dot)))
                          (js_sub (Num 1) (js_mul dot dot));
               newRadius = three_clamp
                 (js_div (v_length (v_add (cameraPos settings) (v_multiplyScalar currentDir t)))
                         VISUAL_SCALE)
                 (Num 0.6) (Num 1.4)
           in settings\<lparr>distance := newRadius\<rparr>))"

section \<open>Pose mutations at the public interface (App.tsx, CameraViewer.tsx)\<close>

text \<open>
  The three number fields with their sliders.  Each field has an \<^verbatim>\<open>EditableNumber\<close> and a
  range input with the same bounds: azimuth 0 to 360, elevation -30 to 60, distance 0.6
  to 1.4.
\<close>

datatype field = Azimuth | Elevation | Distance

fun field_min :: "field \<Rightarrow> real" where
  "field_min Azimuth = 0"
| "field_min Elevation = - 30"
| "field_min Distance = 0.6"

fun field_max :: "field \<Rightarrow> real" where
  "field_max Azimuth = 360"
| "field_max Elevation = 60"
| "field_max Distance = 1.4"

fun get_field :: "field \<Rightarrow> CameraSettings \<Rightarrow> jsnum" where
  "get_field Azimuth p = azimuth p"
| "get_field Elevation p = elevation p"
| "get_field Distance p = distance p"

fun set_field :: "field \<Rightarrow> jsnum \<Rightarrow> CameraSettings \<Rightarrow> CameraSettings" where
  "set_field Azimuth v p = p\<lparr>azimuth := v\<rparr>"
| "set_field Elevation v p = p\<lparr>elevation := v\<rparr>"
| "set_field Distance v p = p\<lparr>distance := v\<rparr>"

text \<open>
  The events that change the pose: a committed number field, a slider change carrying
  \<^verbatim>\<open>Number(e.target.value)\<close>, a direction button, a shot-type button, and a pointer
  move in the current drag mode.
\<close>

datatype pose_event =
    NumberEdit field string
  | Slider field jsnum
  | DirectionButton real
  | ShotButton "string \<times> real"
  | PointerMove dragMode pointer_ray

fun apply_event :: "(string \<Rightarrow> jsnum) \<Rightarrow> pose_event \<Rightarrow> CameraSettings \<Rightarrow> CameraSettings" where
  "apply_event parseFloat (NumberEdit f text) p =
     set_field f (handleBlur parseFloat text (get_field f p) (Num (field_min f)) (Num (field_max f))) p"
| "apply_event parseFloat (Slider f v) p = set_field f v p"
| "apply_event parseFloat (DirectionButton angle) p = setGameAngle (Num angle) p"
| "apply_event parseFloat (ShotButton opt) p = shot_button opt p"
| "apply_event parseFloat (PointerMove mode ray) p = handlePointerMove mode p ray"

fun finite_num :: "jsnum \<Rightarrow> bool" where
  "finite_num (Num x) = True"
| "finite_num _ = False"

fun finite_vec :: "vec3 \<Rightarrow> bool" where
  "finite_vec (x, y, z) = (finite_num x \<and> finite_num y \<and> finite_num z)"

text \<open>
  The events the page can deliver: a range input reports a number within its bounds, the
  buttons are those of the two tables, and the viewer's ray and hit point are finite.
\<close>

fun event_ok :: "pose_event \<Rightarrow> bool" where
  "event_ok (NumberEdit f text) = True"
| "event_ok (Slider f v) = in_range (field_min f) (field_max f) v"
| "event_ok (DirectionButton angle) = (angle \<in> set direction_buttons)"
| "event_ok (ShotButton opt) = (opt \<in> set shotTypeOptions)"
| "event_ok (PointerMove mode ray) =
     (finite_vec (rayOrigin ray) \<and> finite_vec (rayDir ray)
      \<and> (case sphereHit ray of None \<Rightarrow> True | Some target \<Rightarrow> finite_vec target))"

text \<open>
  The events whose effect on the distance is left out of the invariant below: the
  shot-type button of the table entry \<^verbatim>\<open>extreme\<close> with distance 0.5, and a zoom move
  whose computed distance is NaN.
\<close>

fun left_out :: "pose_event \<Rightarrow> CameraSettings \<Rightarrow> bool" where
  "left_out (ShotButton opt) p = (opt = (''extreme'', 0.5))"
| "left_out (PointerMove DragDistance ray) p =
     js_isNaN (distance (handlePointerMove DragDistance p ray))"
| "left_out _ p = False"

definition shot_tags :: "string set" where
  "shot_tags = {''long'', ''medium'', ''close'', ''extreme''}"

text \<open>Azimuth within the closed range 0 to 360, elevation in range, shot type a tag.\<close>

definition angles_ok :: "CameraSettings \<Rightarrow> bool" where
  "angles_ok p \<longleftrightarrow>
     in_range 0 360 (azimuth p) \<and> in_range (- 30) 60 (elevation p) \<and> shotType p \<in> shot_tags"

definition pose_ok :: "CameraSettings \<Rightarrow> bool" where
  "pose_ok p \<longleftrightarrow> angles_ok p \<and> in_range 0.6 1.4 (distance p)"

text \<open>The invariant as the specification states it, the azimuth below 360.\<close>

fun in_half_open :: "real \<Rightarrow> real \<Rightarrow> jsnum \<Rightarrow> bool" where
  "in_half_open lo hi (Num x) = (lo \<le> x \<and> x < hi)"
| "in_half_open lo hi _ = False"

definition spec_pose_invariant :: "CameraSettings \<Rightarrow> bool" where
  "spec_pose_invariant p \<longleftrightarrow>
     in_half_open 0 360 (azimuth p) \<and> in_range (- 30) 60 (elevation p)
     \<and> in_range 0.6 1.4 (distance p) \<and> shotType p \<in> shot_tags"

section \<open>The formulas of the orbit update as the specification words them\<close>

definition clamp :: "real \<Rightarrow> real \<Rightarrow> real \<Rightarrow> real" where
  "clamp x lo hi = max lo (min hi x)"

text \<open>
  The degree value of \<open>atan2 tx tz\<close>, normalized by adding 360 if negative, and that
  value rounded to the nearest integer degree.
\<close>

definition wrapped_degrees :: "real \<Rightarrow> real \<Rightarrow> real" where
  "wrapped_degrees tx tz =
     (let deg = atan2 tx tz * 180 / pi in if deg < 0 then deg + 360 else deg)"

definition spec_orbit_azimuth :: "real \<Rightarrow> real \<Rightarrow> int" where
  "spec_orbit_azimuth tx tz = round (wrapped_degrees tx tz)"

definition spec_orbit_elevation :: "real \<Rightarrow> real \<Rightarrow> real \<Rightarrow> real" where
  "spec_orbit_elevation tx ty tz =
     clamp (of_int (round (90 - arccos (clamp (ty / sqrt (tx * tx + ty * ty + tz * tz)) (- 1) 1)
                                * 180 / pi)))
           (- 30) 60"

section \<open>Results\<close>

text \<open>
  C9.  A direction-preset button with angle \<open>a\<close> sets the azimuth to \<open>a\<close> and overwrites
  the elevation with 35; the distance and the shot type stay those of the prior pose.
\<close>

theorem C9_setGameAngle_frame:
  "azimuth (setGameAngle a p) = a
   \<and> elevation (setGameAngle a p) = Num 35
   \<and> distance (setGameAngle a p) = distance p
   \<and> shotType (setGameAngle a p) = shotType p"
  by (simp add: setGameAngle_def)

text \<open>
  C7.  The vertical classification has four bands that do not overlap: above 45 the
  overhead view, above 15 and up to 45 the high angle, from -15 to 15 eye level, below
  -15 the low angle.  The bound 45 is open going up: 45.1 is overhead, 45.0 is the high
  angle.
\<close>

theorem C7_vertical_bands:
  "(verticalDesc (Num e) = ''Bird's eye view (High overhead)'') = (45 < e)
   \<and> (verticalDesc (Num e) = ''High angle shot looking down'') = (15 < e \<and> e \<le> 45)
   \<and> (verticalDesc (Num e) = ''Eye-level horizontal view'') = (- 15 \<le> e \<and> e \<le> 15)
   \<and> (verticalDesc (Num e) = ''Low angle hero shot looking up'') = (e < - 15)
   \<and> verticalDesc (Num 45.1) = ''Bird's eye view (High overhead)''
   \<and> verticalDesc (Num 45.0) = ''High angle shot looking down''"
  by (simp add: verticalDesc_def js_gt_def)

text \<open>
  C6.  The horizontal classification cuts the azimuth into eight sectors of 45 degrees
  whose bounds are the midpoints 22.5, 67.5, ..., 337.5; the sector of 0 is
  \<open>[337.5, 360) \<union> [0, 22.5)\<close>.  The label of that sector is the text
  \<^verbatim>\<open>Front view (0\<close>, the degree sign, \<^verbatim>\<open>)\<close>, which begins with \<^verbatim>\<open>Front view\<close>.
  So 22.4 gives the front view, 22.6 the front-right 45 degree angle, and 0 and 359.9
  both the front view.
\<close>

theorem C6_horizontal_sectors:
  "(horizontalDesc (Num a) = ''Front view (0'' @ degree_sign @ '')'') = (337.5 \<le> a \<or> a < 22.5)
   \<and> (horizontalDesc (Num a) = ''Front-right 45'' @ degree_sign @ '' angle'') = (22.5 \<le> a \<and> a < 67.5)
   \<and> (horizontalDesc (Num a) = ''Right side 90'' @ degree_sign @ '' profile'') = (67.5 \<le> a \<and> a < 112.5)
   \<and> (horizontalDesc (Num a) = ''Rear-right 135'' @ degree_sign @ '' angle'') = (112.5 \<le> a \<and> a < 157.5)
   \<and> (horizontalDesc (Num a) = ''Back view 180'' @ degree_sign) = (157.5 \<le> a \<and> a < 202.5)
   \<and> (horizontalDesc (Num a) = ''Rear-left 225'' @ degree_sign @ '' angle'') = (202.5 \<le> a \<and> a < 247.5)
   \<and> (horizontalDesc (Num a) = ''Left side 270'' @ degree_sign @ '' profile'') = (247.5 \<le> a \<and> a < 292.5)
   \<and> (horizontalDesc (Num a) = ''Front-left 315'' @ degree_sign @ '' angle'') = (292.5 \<le> a \<and> a < 337.5)
   \<and> horizontalDesc (Num 22.4) = ''Front view (0'' @ degree_sign @ '')''
   \<and> horizontalDesc (Num 22.6) = ''Front-right 45'' @ degree_sign @ '' angle''
   \<and> horizontalDesc (Num 0) = ''Front view (0'' @ degree_sign @ '')''
   \<and> horizontalDesc (Num 359.9) = ''Front view (0'' @ degree_sign @ '')''
   \<and> prefix ''Front view'' (horizontalDesc (Num 22.4))
   \<and> prefix ''Front view'' (horizontalDesc (Num 0))
   \<and> prefix ''Front view'' (horizontalDesc (Num 359.9))"
  by (simp add: horizontalDesc_def js_ge_def degree_sign_def)

text \<open>
  C8 (amended).  A number field with bounds \<open>[lo, hi]\<close>.  Text that does not parse
  (\<^verbatim>\<open>parseFloat\<close> gives NaN) commits the field's last value clamped into the bounds:
  the last value itself when it lies within them, the nearest bound when it does not.
  Text that parses to a number is never refused: a number below the bounds commits
  \<open>lo\<close>, a number above them commits \<open>hi\<close>, a number within them commits itself, and
  whatever number the text parses to (an infinity included), the committed value lies
  within the bounds.  The field does not always revert: after the shot-type button
  \<^verbatim>\<open>extreme\<close> the distance is 0.5, and text that does not parse then commits 0.6.
\<close>

theorem C8_handleBlur_sanitizes:
  assumes "lo \<le> hi"
  shows "(js_isNaN (parseFloat t) \<and> val = Num v \<longrightarrow>
           handleBlur parseFloat t val (Num lo) (Num hi) = Num (max lo (min hi v)))
    \<and> (js_isNaN (parseFloat t) \<and> in_range lo hi val \<longrightarrow>
           handleBlur parseFloat t val (Num lo) (Num hi) = val)
    \<and> (parseFloat t = Num n \<and> n < lo \<longrightarrow> handleBlur parseFloat t val (Num lo) (Num hi) = Num lo)
    \<and> (parseFloat t = Num n \<and> hi < n \<longrightarrow> handleBlur parseFloat t val (Num lo) (Num hi) = Num hi)
    \<and> (parseFloat t = Num n \<and> lo \<le> n \<and> n \<le> hi \<longrightarrow>
           handleBlur parseFloat t val (Num lo) (Num hi) = Num n)
    \<and> (\<not> js_isNaN (parseFloat t) \<longrightarrow>
           in_range lo hi (handleBlur parseFloat t val (Num lo) (Num hi)))"
proof -
  have clamped: "js_isNaN (parseFloat t) \<and> val = Num v \<longrightarrow>
      handleBlur parseFloat t val (Num lo) (Num hi) = Num (max lo (min hi v))"
    using assms by (auto simp add: handleBlur_def js_min_def js_max_def max_def min_def Let_def)
  have reverts: "js_isNaN (parseFloat t) \<and> in_range lo hi val \<longrightarrow>
      handleBlur parseFloat t val (Num lo) (Num hi) = val"
    by (cases val) (simp_all add: handleBlur_def js_min_def js_max_def)
  have below: "parseFloat t = Num n \<and> n < lo \<longrightarrow>
      handleBlur parseFloat t val (Num lo) (Num hi) = Num lo"
    using assms by (simp add: handleBlur_def js_min_def js_max_def)
  have above: "parseFloat t = Num n \<and> hi < n \<longrightarrow>
      handleBlur parseFloat t val (Num lo) (Num hi) = Num hi"
    using assms by (simp add: handleBlur_def js_min_def js_max_def)
  have inside: "parseFloat t = Num n \<and> lo \<le> n \<and> n \<le> hi \<longrightarrow>
      handleBlur parseFloat t val (Num lo) (Num hi) = Num n"
    by (simp add: handleBlur_def js_min_def js_max_def)
  have accepted: "\<not> js_isNaN (parseFloat t) \<longrightarrow>
      in_range lo hi (handleBlur parseFloat t val (Num lo) (Num hi))"
    using assms
    by (cases "parseFloat t") (simp_all add: handleBlur_def js_min_def js_max_def Let_def)
  from clamped reverts below above inside accepted show ?thesis by blast
qed

theorem C8_handleBlur_witness:
  "(0.6::real) \<le> 1.4
   \<and> in_range 0.6 1.4 (Num 1)
   \<and> js_isNaN ((\<lambda>s. if s = ''7'' then Num 7 else NaN) ''abc'')
   \<and> handleBlur (\<lambda>s. if s = ''7'' then Num 7 else NaN) ''abc'' (Num 1) (Num 0.6) (Num 1.4) = Num 1
   \<and> handleBlur (\<lambda>s. if s = ''7'' then Num 7 else NaN) ''abc'' (Num 0.5) (Num 0.6) (Num 1.4) = Num 0.6
   \<and> handleBlur (\<lambda>s. if s = ''7'' then Num 7 else NaN) ''7'' (Num 1) (Num 0.6) (Num 1.4) = Num 1.4"
  using C8_handleBlur_sanitizes [of "0.6" "1.4" "\<lambda>s. if s = ''7'' then Num 7 else NaN" "''abc''" "Num 1" 1 7]
    C8_handleBlur_sanitizes [of "0.6" "1.4" "\<lambda>s. if s = ''7'' then Num 7 else NaN" "''abc''" "Num 0.5" "0.5" 7]
    C8_handleBlur_sanitizes [of "0.6" "1.4" "\<lambda>s. if s = ''7'' then Num 7 else NaN" "''7''" "Num 1" 1 7]
  by simp

theorem C8_revert_counterexample:
  "distance (apply_event (\<lambda>s. NaN) (ShotButton (''extreme'', 0.5)) initial_settings) = Num 0.5
   \<and> js_isNaN ((\<lambda>s. NaN) ''abc'')
   \<and> handleBlur (\<lambda>s. NaN) ''abc'' (Num 0.5) (Num 0.6) (Num 1.4) = Num 0.6
   \<and> distance (apply_event (\<lambda>s. NaN) (NumberEdit Distance ''abc'')
         (apply_event (\<lambda>s. NaN) (ShotButton (''extreme'', 0.5)) initial_settings)) = Num 0.6"
  by (simp add: shot_button_def initial_settings_def handleBlur_def js_min_def js_max_def)

subsection \<open>Reference images\<close>

lemma length_slice0_3: "length (slice0 xs 3) \<le> 3"
  by (simp add: slice0_def)

lemma slice0_3: "slice0 xs 3 = take 3 xs"
  by (simp add: slice0_def)

lemma length_filter_indexed:
  "length (map snd (filter P (zip [0..<length xs] xs))) \<le> length xs"
proof -
  have "length (filter P (zip [0..<length xs] xs)) \<le> length (zip [0..<length xs] xs)"
    by (rule length_filter_le)
  then show ?thesis by simp
qed

lemma upload_step_bound:
  assumes "length (inputImages st) \<le> 3"
  shows "length (inputImages (upload_step st ev)) \<le> 3"
proof (cases ev)
  case (FileChange files)
  then show ?thesis
    using assms by (cases files) (simp_all add: handleFileUpload_def)
next
  case (ReaderLoad k)
  then show ?thesis
    using assms by (simp add: reader_onload_def length_slice0_3)
next
  case (RemoveImage index)
  have "length (inputImages (removeImage index st)) \<le> length (inputImages st)"
    unfolding removeImage_def by (simp del: length_map add: length_filter_indexed)
  with RemoveImage assms show ?thesis by simp
qed

lemma foldl_upload_bound:
  "length (inputImages st) \<le> 3 \<Longrightarrow> length (inputImages (foldl upload_step st evs)) \<le> 3"
  by (induction evs arbitrary: st) (simp_all add: upload_step_bound)

lemma upload_run_bound: "length (inputImages (upload_run evs)) \<le> 3"
  unfolding upload_run_def by (rule foldl_upload_bound) (simp add: no_images_def)

text \<open>
  C10.  After any sequence of uploads, finished reads (in any order) and removals, the
  list of reference images holds at most 3 images.  An upload of any number of files
  starts reads only for the first files that fit the free slots, and a finished read
  appends its image and keeps the first 3 entries.
\<close>

theorem C10_at_most_three_images:
  "length (inputImages (upload_run evs)) \<le> 3
   \<and> filesToProcess (upload_run evs) files
       = take (3 - length (inputImages (upload_run evs))) files
   \<and> length (inputImages (upload_run evs)) + length (filesToProcess (upload_run evs) files) \<le> 3
   \<and> (k < length (reading (upload_run evs)) \<longrightarrow>
        inputImages (reader_onload k (upload_run evs))
          = take 3 (inputImages (upload_run evs) @ [reading (upload_run evs) ! k]))"
proof -
  let ?st = "upload_run evs"
  have bound: "length (inputImages ?st) \<le> 3" by (rule upload_run_bound)
  then have slots: "nat (3 - int (length (inputImages ?st))) = 3 - length (inputImages ?st)"
    by simp
  have kept: "filesToProcess ?st files = take (3 - length (inputImages ?st)) files"
    using bound slots by (simp add: filesToProcess_def slice0_def)
  have fits: "length (inputImages ?st) + length (filesToProcess ?st files) \<le> 3"
    using bound by (simp add: kept)
  have appended: "k < length (reading ?st) \<longrightarrow>
      inputImages (reader_onload k ?st) = take 3 (inputImages ?st @ [reading ?st ! k])"
    by (simp add: reader_onload_def slice0_3)
  from bound kept fits appended show ?thesis by blast
qed

theorem C10_at_most_three_images_witness:
  "0 < length (reading (upload_run [FileChange (Some [''a'', ''b'', ''c'', ''d'', ''e'']),
        ReaderLoad 2, ReaderLoad 0, FileChange (Some [''f'', ''g''])]))
   \<and> filesToProcess (upload_run [FileChange (Some [''a'', ''b'', ''c'', ''d'', ''e'']),
        ReaderLoad 2, ReaderLoad 0, FileChange (Some [''f'', ''g''])]) [''h'', ''i''] = [''h'']
   \<and> inputImages (reader_onload 0 (upload_run [FileChange (Some [''a'', ''b'', ''c'', ''d'', ''e'']),
        ReaderLoad 2, ReaderLoad 0, FileChange (Some [''f'', ''g''])])) = [''c'', ''a'', ''b'']"
  using C10_at_most_three_images [of "[FileChange (Some [''a'', ''b'', ''c'', ''d'', ''e'']),
        ReaderLoad 2, ReaderLoad 0, FileChange (Some [''f'', ''g''])]" "[''h'', ''i'']" 0]
  by (simp add: upload_run_def no_images_def handleFileUpload_def filesToProcess_def
      reader_onload_def slice0_def)

subsection \<open>Generation\<close>

lemma batch_fails_on_second:
  assumes "images \<noteq> []"
    and "generateAngledImage (service 0 images (generatePrompt toString settings) ratio) = Inr url"
    and "generateAngledImage (service 1 images (generatePrompt toString settings) ratio) = Inl msg"
  shows "handleGenerate service toString images settings 3 ratio genState
         = (genState\<lparr>isGenerating := False,
                     error := Some (if msg = [] then render_failed_message else msg),
                     outputImageUrls := []\<rparr>, 2)"
proof -
  let ?call = "\<lambda>i. service i images (generatePrompt toString settings) ratio"
  have second: "batch_loop ?call 1 3 [url] = (Inl msg, 2)"
    using assms(3) by (subst batch_loop.simps) simp
  have "batch_loop ?call 0 3 [] = batch_loop ?call 1 3 [url]"
    using assms(2) by (subst batch_loop.simps) simp
  with second have "batch_loop ?call 0 3 [] = (Inl msg, 2)" by simp
  then show ?thesis
    using assms(1) by (simp add: handleGenerate_def)
qed

lemma render_ignores_error:
  "render_generation (genState\<lparr>error := e\<rparr>) batchSize images
   = render_generation genState batchSize images"
  by (simp add: render_generation_def)

text \<open>
  C3.  A batch of 3 with one reference image, whose first request returns an image and
  whose second request is rejected with the message \<^verbatim>\<open>quota\<close>.  The handler ends
  with an empty output list (the image of the first request is dropped), no longer
  generating, after exactly 2 requests, and with the message stored in the \<^verbatim>\<open>error\<close>
  field of the state.  The page rendered from that state is the page of a state with
  no error at all: the message is stored and never shown.
\<close>

theorem C3_error_stored_not_rendered:
  "handleGenerate
      (\<lambda>i imgs prompt ratio. if i = 0 then Replied [None, Some ''QUJD''] else Rejected ''quota'')
      (\<lambda>n. ''0'') [''data:image/png;base64,AAAA''] initial_settings 3 ''16:9''
      \<lparr>isGenerating = False, error = None, outputImageUrls = [''old'']\<rparr>
     = (\<lparr>isGenerating = False, error = Some ''quota'', outputImageUrls = []\<rparr>, 2)
   \<and> render_generation
        (fst (handleGenerate
          (\<lambda>i imgs prompt ratio. if i = 0 then Replied [None, Some ''QUJD''] else Rejected ''quota'')
          (\<lambda>n. ''0'') [''data:image/png;base64,AAAA''] initial_settings 3 ''16:9''
          \<lparr>isGenerating = False, error = None, outputImageUrls = [''old'']\<rparr>))
        3 [''data:image/png;base64,AAAA'']
     = render_generation \<lparr>isGenerating = False, error = None, outputImageUrls = []\<rparr>
        3 [''data:image/png;base64,AAAA'']"
proof -
  have run: "handleGenerate
      (\<lambda>i imgs prompt ratio. if i = 0 then Replied [None, Some ''QUJD''] else Rejected ''quota'')
      (\<lambda>n. ''0'') [''data:image/png;base64,AAAA''] initial_settings 3 ''16:9''
      \<lparr>isGenerating = False, error = None, outputImageUrls = [''old'']\<rparr>
     = (\<lparr>isGenerating = False, error = Some ''quota'', outputImageUrls = []\<rparr>, 2)"
    using batch_fails_on_second
      [of "[''data:image/png;base64,AAAA'']"
          "\<lambda>i imgs prompt ratio. if i = 0 then Replied [None, Some ''QUJD''] else Rejected ''quota''"
          "\<lambda>n. ''0''" initial_settings "''16:9''" "''data:image/png;base64,QUJD''" "''quota''"
          "\<lparr>isGenerating = False, error = None, outputImageUrls = [''old'']\<rparr>"]
    by (simp add: generateAngledImage_def)
  show ?thesis
    unfolding run by (simp add: render_generation_def)
qed

subsection \<open>Angles of a point\<close>

lemma cos_pos_half_pi:
  assumes "0 < cos t" "- pi < t" "t \<le> pi"
  shows "- (pi / 2) < t \<and> t < pi / 2"
proof -
  have upper: "t < pi / 2"
  proof (rule ccontr)
    assume "\<not> t < pi / 2"
    then have "pi / 2 \<le> t" by simp
    then have "cos t \<le> cos (pi / 2)"
      using assms(3) by (intro cos_monotone_0_pi_le) simp_all
    with assms(1) show False by simp
  qed
  have lower: "- (pi / 2) < t"
  proof (rule ccontr)
    assume "\<not> - (pi / 2) < t"
    then have "pi / 2 \<le> - t" by simp
    then have "cos (- t) \<le> cos (pi / 2)"
      using assms(2) by (intro cos_monotone_0_pi_le) simp_all
    with assms(1) show False by simp
  qed
  from lower upper show ?thesis by simp
qed

lemma cos_neg_sin_nonneg:
  assumes "cos t < 0" "0 \<le> sin t" "- pi < t" "t \<le> pi"
  shows "pi / 2 < t"
proof (rule ccontr)
  assume n: "\<not> pi / 2 < t"
  show False
  proof (cases "- (pi / 2) \<le> t")
    case True
    with n have "0 \<le> cos t" by (intro cos_ge_zero) simp_all
    with assms(1) show False by simp
  next
    case False
    then have "0 < - t" "- t < pi" using assms(3) pi_gt_zero by linarith+
    then have "0 < sin (- t)" by (rule sin_gt_zero)
    with assms(2) show False by simp
  qed
qed

lemma cos_neg_sin_neg:
  assumes "cos t < 0" "sin t < 0" "- pi < t" "t \<le> pi"
  shows "t < - (pi / 2)"
proof (rule ccontr)
  assume n: "\<not> t < - (pi / 2)"
  show False
  proof (cases "t \<le> pi / 2")
    case True
    with n have "0 \<le> cos t" by (intro cos_ge_zero) simp_all
    with assms(1) show False by simp
  next
    case False
    then have "0 \<le> t" using pi_gt_zero by linarith
    then have "0 \<le> sin t" using assms(4) by (rule sin_ge_zero)
    with assms(2) show False by simp
  qed
qed

lemma cos_zero_half_pi:
  assumes "cos t = 0" "- pi < t" "t \<le> pi"
  shows "t = pi / 2 \<or> t = - (pi / 2)"
proof -
  have key: "s = pi / 2" if "cos s = 0" "0 \<le> s" "s \<le> pi" for s
  proof (rule ccontr)
    assume "s \<noteq> pi / 2"
    then consider "s < pi / 2" | "pi / 2 < s" by linarith
    then show False
    proof cases
      case 1
      then have "cos (pi / 2) < cos s" using that(2) pi_gt_zero
        by (intro cos_monotone_0_pi) simp_all
      with that(1) show False by simp
    next
      case 2
      then have "cos s < cos (pi / 2)" using that(3) pi_gt_zero
        by (intro cos_monotone_0_pi) simp_all
      with that(1) show False by simp
    qed
  qed
  show ?thesis
  proof (cases "0 \<le> t")
    case True
    then show ?thesis using key [of t] assms by simp
  next
    case False
    then have "- t = pi / 2" using key [of "- t"] assms by simp
    then show ?thesis by simp
  qed
qed

lemma tan_scale: "r \<noteq> 0 \<Longrightarrow> (r * sin t) / (r * cos t) = tan t"
  by (simp add: tan_def)

lemma atan2_polar:
  assumes "0 < r" "- pi < t" "t \<le> pi"
  shows "atan2 (r * sin t) (r * cos t) = t"
proof -
  have r0: "r \<noteq> 0" using assms(1) by simp
  consider (pos) "0 < cos t" | (neg) "cos t < 0" | (zero) "cos t = 0" by linarith
  then show ?thesis
  proof cases
    case pos
    then have "- (pi / 2) < t \<and> t < pi / 2"
      using assms by (intro cos_pos_half_pi)
    then have "arctan (tan t) = t" by (simp add: arctan_tan)
    moreover have "0 < r * cos t" using pos assms(1) by simp
    ultimately show ?thesis by (simp only: atan2_def tan_scale [OF r0] if_True)
  next
    case neg
    have xneg: "r * cos t < 0" "\<not> 0 < r * cos t"
      using neg assms(1) by (simp_all add: mult_pos_neg not_less mult_le_0_iff)
    show ?thesis
    proof (cases "0 \<le> sin t")
      case True
      then have "pi / 2 < t" using neg assms by (intro cos_neg_sin_nonneg)
      then have "arctan (tan (t - pi)) = t - pi"
        using assms(3) by (intro arctan_tan) simp_all
      moreover have "tan (t - pi) = tan t"
        using tan_periodic_pi [of "t - pi"] by simp
      ultimately have "arctan (tan t) = t - pi" by simp
      moreover have "0 \<le> r * sin t" using True assms(1) by simp
      ultimately show ?thesis
        using xneg by (simp only: atan2_def tan_scale [OF r0] if_True if_False)
    next
      case False
      then have "t < - (pi / 2)" using neg assms by (intro cos_neg_sin_neg) simp_all
      then have "arctan (tan (t + pi)) = t + pi"
        using assms(2) by (intro arctan_tan) simp_all
      then have "arctan (tan t) = t + pi" by (simp add: tan_periodic_pi)
      moreover have "\<not> 0 \<le> r * sin t"
        using False assms(1) by (simp add: not_le mult_pos_neg)
      ultimately show ?thesis
        using xneg by (simp only: atan2_def tan_scale [OF r0] if_True if_False)
    qed
  next
    case zero
    then have "t = pi / 2 \<or> t = - (pi / 2)" using assms by (intro cos_zero_half_pi)
    then show ?thesis
    proof
      assume t: "t = pi / 2"
      show ?thesis unfolding t using assms(1) by (simp add: atan2_def)
    next
      assume t: "t = - (pi / 2)"
      show ?thesis unfolding t using assms(1) by (simp add: atan2_def not_less mult_le_0_iff)
    qed
  qed
qed

lemma js_sub_Num: "js_sub (Num x) (Num y) = Num (x - y)"
  by (simp add: js_sub_def)

lemma three_clamp_Num:
  "lo \<le> hi \<Longrightarrow> three_clamp (Num x) (Num lo) (Num hi) = Num (max lo (min hi x))"
  by (simp add: three_clamp_def js_min_def js_max_def max_def min_def)

lemma cameraPos_Num:
  assumes "azimuth s = Num a" "elevation s = Num e" "distance s = Num d"
  shows "cameraPos s =
     (Num (d * 2.5 * sin ((90 - e) * (pi / 180)) * sin (a * (pi / 180))),
      Num (d * 2.5 * cos ((90 - e) * (pi / 180))),
      Num (d * 2.5 * sin ((90 - e) * (pi / 180)) * cos (a * (pi / 180))))"
  using assms by (simp add: cameraPos_def scene_radius_def VISUAL_SCALE_def js_sub_Num Let_def)

lemma spherical_norm:
  fixes R s c :: real
  assumes "0 \<le> R" "s\<^sup>2 + c\<^sup>2 = 1"
  shows "sqrt (R * s * sin th * (R * s * sin th) + R * c * (R * c) + R * s * cos th * (R * s * cos th)) = R"
proof -
  have "R * s * sin th * (R * s * sin th) + R * c * (R * c) + R * s * cos th * (R * s * cos th)
        = R\<^sup>2 * (s\<^sup>2 * (sin th)\<^sup>2 + s\<^sup>2 * (cos th)\<^sup>2 + c\<^sup>2)"
    by (simp only: power2_eq_square) (simp only: algebra_simps)
  also have "\<dots> = R\<^sup>2 * (s\<^sup>2 * ((sin th)\<^sup>2 + (cos th)\<^sup>2) + c\<^sup>2)"
    by (simp only: distrib_left)
  also have "\<dots> = R\<^sup>2" using assms(2) by simp
  finally show ?thesis using assms(1) by simp
qed

lemma orbit_angles_Num:
  assumes "0 < r" "r = sqrt (tx * tx + ty * ty + tz * tz)"
  shows "orbit_angles (Num tx, Num ty, Num tz) =
     (Num (90 - arccos (max (- 1) (min 1 (ty / r))) * 180 / pi),
      Num (if atan2 tx tz * 180 / pi < 0 then atan2 tx tz * 180 / pi + 360
           else atan2 tx tz * 180 / pi))"
proof -
  have nonneg: "0 \<le> tx * tx + ty * ty + tz * tz" by simp
  have len: "v_length (Num tx, Num ty, Num tz) = Num r"
    using assms(2) nonneg by simp
  have r0: "r \<noteq> 0" using assms(1) by simp
  have bounds: "- 1 \<le> max (- 1) (min 1 (ty / r))" "max (- 1) (min 1 (ty / r)) \<le> 1"
    by simp_all
  show ?thesis
    unfolding orbit_angles_def len
    using r0 bounds by (simp add: three_clamp_Num js_sub_Num Let_def)
qed

lemma atan2_sphere:
  assumes "0 < q" "0 \<le> th" "th < 2 * pi"
  shows "atan2 (q * sin th) (q * cos th) = (if th \<le> pi then th else th - 2 * pi)"
proof (cases "th \<le> pi")
  case True
  then show ?thesis using assms atan2_polar [of q th] by simp
next
  case False
  then have "- pi < th - 2 * pi" "th - 2 * pi \<le> pi" using assms(3) by simp_all
  then have "atan2 (q * sin (th - 2 * pi)) (q * cos (th - 2 * pi)) = th - 2 * pi"
    using assms(1) by (intro atan2_polar)
  moreover have "sin (th - 2 * pi) = sin th" "cos (th - 2 * pi) = cos th"
    by (simp_all add: sin_diff cos_diff)
  ultimately show ?thesis using False by simp
qed

text \<open>
  C5.  For a pose with azimuth in \<open>[0, 360)\<close>, elevation in \<open>[-30, 60]\<close> and distance
  in \<open>[0.6, 1.4]\<close>, the camera position is the stated spherical formula with radius
  \<open>distance * 2.5\<close>, and the angles recovered from that position (arccosine of
  \<open>y / |p|\<close>, \<open>atan2 x z\<close>, in degrees, 360 added to a negative azimuth) are the
  pose's elevation and azimuth again.  Arithmetic is exact here, so the two agree
  without any tolerance.
\<close>

theorem C5_position_roundtrip:
  assumes az: "azimuth s = Num a" "0 \<le> a" "a < 360"
    and el: "elevation s = Num e" "- 30 \<le> e" "e \<le> 60"
    and di: "distance s = Num d" "0.6 \<le> d" "d \<le> 1.4"
  shows "cameraPos s =
           (Num (d * 2.5 * sin ((90 - e) * (pi / 180)) * sin (a * (pi / 180))),
            Num (d * 2.5 * cos ((90 - e) * (pi / 180))),
            Num (d * 2.5 * sin ((90 - e) * (pi / 180)) * cos (a * (pi / 180))))
         \<and> orbit_angles (cameraPos s) = (Num e, Num a)"
proof -
  define ph where "ph = (90 - e) * (pi / 180)"
  define th where "th = a * (pi / 180)"
  define R where "R = d * 2.5"
  have R: "0 < R" using di(2) by (simp add: R_def)
  have unit: "0 < pi / 180" by simp
  have "0 < 90 - e" "90 - e < 180" using el by simp_all
  then have "0 < (90 - e) * (pi / 180)" "(90 - e) * (pi / 180) < 180 * (pi / 180)"
    using unit by (simp_all del: times_divide_eq_right)
  then have ph: "0 < ph" "ph < pi" by (simp_all add: ph_def)
  have "0 \<le> a * (pi / 180)" "a * (pi / 180) < 360 * (pi / 180)"
    using az(2,3) unit by (simp_all del: times_divide_eq_right)
  then have th: "0 \<le> th" "th < 2 * pi" by (simp_all add: th_def)
  have S: "0 < sin ph" using ph by (rule sin_gt_zero)
  have pos: "cameraPos s = (Num (R * sin ph * sin th), Num (R * cos ph), Num (R * sin ph * cos th))"
    using cameraPos_Num [OF az(1) el(1) di(1)] by (simp add: ph_def th_def R_def)
  have norm: "sqrt (R * sin ph * sin th * (R * sin ph * sin th) + R * cos ph * (R * cos ph)
                    + R * sin ph * cos th * (R * sin ph * cos th)) = R"
    using R by (intro spherical_norm) simp_all
  have ang: "orbit_angles (cameraPos s) =
     (Num (90 - arccos (max (- 1) (min 1 (R * cos ph / R))) * 180 / pi),
      Num (if atan2 (R * sin ph * sin th) (R * sin ph * cos th) * 180 / pi < 0
           then atan2 (R * sin ph * sin th) (R * sin ph * cos th) * 180 / pi + 360
           else atan2 (R * sin ph * sin th) (R * sin ph * cos th) * 180 / pi))"
    unfolding pos using R norm by (intro orbit_angles_Num) simp_all
  have "R * cos ph / R = cos ph" using R by simp
  moreover have "max (- 1) (min 1 (cos ph)) = cos ph"
    by (simp only: min_absorb2 [OF cos_le_one] max_absorb2 [OF cos_ge_minus_one])
  moreover have "arccos (cos ph) = ph" using ph by (intro arccos_cos) simp_all
  ultimately have elev: "90 - arccos (max (- 1) (min 1 (R * cos ph / R))) * 180 / pi = e"
    by (simp add: ph_def)
  have at: "atan2 (R * sin ph * sin th) (R * sin ph * cos th) = (if th \<le> pi then th else th - 2 * pi)"
    using R S th by (intro atan2_sphere) simp_all
  have azim: "(if atan2 (R * sin ph * sin th) (R * sin ph * cos th) * 180 / pi < 0
           then atan2 (R * sin ph * sin th) (R * sin ph * cos th) * 180 / pi + 360
           else atan2 (R * sin ph * sin th) (R * sin ph * cos th) * 180 / pi) = a"
  proof (cases "th \<le> pi")
    case True
    then have "atan2 (R * sin ph * sin th) (R * sin ph * cos th) * 180 / pi = a"
      using at by (simp add: th_def)
    then show ?thesis using az(2) by simp
  next
    case False
    then have "atan2 (R * sin ph * sin th) (R * sin ph * cos th) * 180 / pi = a - 360"
      using at pi_gt_zero by (simp add: th_def field_simps)
    then show ?thesis using az(3) by simp
  qed
  show ?thesis
    using cameraPos_Num [OF az(1) el(1) di(1)] ang elev azim by simp
qed

theorem C5_position_roundtrip_witness:
  "orbit_angles (cameraPos \<lparr>azimuth = Num 270, elevation = Num 0, distance = Num 1,
      shotType = ''medium''\<rparr>) = (Num 0, Num 270)"
  by (rule conjunct2 [OF C5_position_roundtrip
        [of "\<lparr>azimuth = Num 270, elevation = Num 0, distance = Num 1, shotType = ''medium''\<rparr>"
            270 0 1]])
    simp_all

subsection \<open>The orbit update\<close>

lemma arctan_le_self:
  fixes x :: real
  assumes "0 \<le> x"
  shows "arctan x \<le> x"
proof -
  have "(\<lambda>t. t - arctan t) 0 \<le> (\<lambda>t. t - arctan t) x"
  proof (rule DERIV_nonneg_imp_nondecreasing [OF assms])
    fix t :: real
    assume "0 \<le> t" "t \<le> x"
    have d: "((\<lambda>t. t - arctan t) has_real_derivative (1 - inverse (1 + t\<^sup>2))) (at t)"
      by (auto intro!: derivative_eq_intros)
    have "inverse (1 + t\<^sup>2) \<le> 1"
      by (rule inverse_le_1_iff [THEN iffD2]) simp
    then have "0 \<le> 1 - inverse (1 + t\<^sup>2)" by simp
    with d show "\<exists>y. ((\<lambda>t. t - arctan t) has_real_derivative y) (at t) \<and> 0 \<le> y"
      by blast
  qed
  then show ?thesis by simp
qed

lemma atan2_bounds: "- pi < atan2 y x \<and> atan2 y x \<le> pi"
proof -
  have b: "- (pi / 2) < arctan (y / x)" "arctan (y / x) < pi / 2"
    by (rule arctan_lbound, rule arctan_ubound)
  consider (pos) "0 < x" | (negp) "x < 0" "0 \<le> y" | (negn) "x < 0" "y < 0" | (zero) "x = 0"
    by linarith
  then show ?thesis
  proof cases
    case pos
    then show ?thesis using b pi_gt_zero by (simp add: atan2_def)
  next
    case negp
    then have "y / x \<le> 0" by (simp add: divide_nonneg_neg)
    then have "arctan (y / x) \<le> 0" by simp
    then show ?thesis using negp b pi_gt_zero by (simp add: atan2_def)
  next
    case negn
    then have "0 < y / x" by (simp add: divide_neg_neg)
    then have "0 < arctan (y / x)" by simp
    then show ?thesis using negn b pi_gt_zero by (simp add: atan2_def)
  next
    case zero
    then have "atan2 y x = pi / 2 \<or> atan2 y x = - (pi / 2) \<or> atan2 y x = 0"
      by (simp add: atan2_def)
    then show ?thesis using pi_gt_zero by (elim disjE) linarith+
  qed
qed

lemma wrapped_degrees_range: "0 \<le> wrapped_degrees tx tz \<and> wrapped_degrees tx tz < 360"
proof -
  define q where "q = atan2 tx tz / pi"
  have "- pi < atan2 tx tz" "atan2 tx tz \<le> pi" using atan2_bounds by simp_all
  then have q: "- 1 < q" "q \<le> 1"
    using pi_gt_zero by (simp_all add: q_def pos_less_divide_eq pos_divide_le_eq)
  have deg: "atan2 tx tz * 180 / pi = 180 * q" by (simp add: q_def)
  show ?thesis
    unfolding wrapped_degrees_def Let_def deg using q by simp
qed

lemma spec_orbit_azimuth_range: "0 \<le> spec_orbit_azimuth tx tz \<and> spec_orbit_azimuth tx tz \<le> 360"
proof -
  have "0 \<le> wrapped_degrees tx tz" "wrapped_degrees tx tz \<le> 360"
    using wrapped_degrees_range [of tx tz] by simp_all
  then have "round (0::real) \<le> round (wrapped_degrees tx tz)
      \<and> round (wrapped_degrees tx tz) \<le> round (360::real)"
    by (intro conjI round_mono)
  then show ?thesis by (simp add: spec_orbit_azimuth_def)
qed

lemma js_rem_360:
  assumes "0 \<le> n"
  shows "js_rem (Num (of_int n)) (Num 360) = Num (of_int (n mod 360))"
proof -
  have "0 \<le> (of_int n :: real) / 360" using assms by simp
  then have "trunc (of_int n / 360) = \<lfloor>(of_int n :: real) / 360\<rfloor>" by (simp add: trunc_def)
  also have "\<dots> = n div 360"
    using floor_divide_of_int_eq [of n 360, where ?'a = real] by simp
  finally have t: "trunc (of_int n / 360) = n div 360" .
  have "n mod 360 = n - 360 * (n div 360)" by (simp add: minus_mult_div_eq_mod)
  then have "(of_int (n mod 360) :: real) = of_int n - 360 * of_int (n div 360)" by simp
  then show ?thesis by (simp add: t)
qed

lemma sum_squares_pos:
  fixes x y z :: real
  assumes "x \<noteq> 0 \<or> y \<noteq> 0 \<or> z \<noteq> 0"
  shows "0 < x * x + y * y + z * z"
proof -
  have "x * x + y * y + z * z \<noteq> 0"
    using assms by (simp add: add_nonneg_eq_0_iff)
  moreover have "0 \<le> x * x + y * y + z * z" by simp
  ultimately show ?thesis by linarith
qed

lemma orbit_update_hit:
  assumes "sphereHit ray = Some (Num tx, Num ty, Num tz)" "tx \<noteq> 0 \<or> ty \<noteq> 0 \<or> tz \<noteq> 0"
  shows "handlePointerMove DragOrbit s ray =
     s\<lparr>azimuth := Num (of_int (spec_orbit_azimuth tx tz mod 360)),
       elevation := Num (spec_orbit_elevation tx ty tz)\<rparr>"
proof -
  define r where "r = sqrt (tx * tx + ty * ty + tz * tz)"
  have r: "0 < r" using sum_squares_pos [OF assms(2)] by (simp add: r_def)
  have len: "v_length (Num tx, Num ty, Num tz) = Num r"
    using sum_squares_pos [OF assms(2)] by (simp add: r_def)
  have ang: "orbit_angles (Num tx, Num ty, Num tz) =
     (Num (90 - arccos (max (- 1) (min 1 (ty / r))) * 180 / pi), Num (wrapped_degrees tx tz))"
    using orbit_angles_Num [OF r r_def] by (simp add: wrapped_degrees_def Let_def)
  have az: "js_rem (js_round (Num (wrapped_degrees tx tz))) (Num 360)
        = Num (of_int (spec_orbit_azimuth tx tz mod 360))"
    using spec_orbit_azimuth_range [of tx tz] js_rem_360 [of "spec_orbit_azimuth tx tz"]
    by (simp add: spec_orbit_azimuth_def)
  have el: "three_clamp (js_round (Num (90 - arccos (max (- 1) (min 1 (ty / r))) * 180 / pi)))
              (Num (- 30)) (Num 60) = Num (spec_orbit_elevation tx ty tz)"
    by (simp add: three_clamp_Num spec_orbit_elevation_def clamp_def r_def)
  have tgt: "(case sphereHit ray of None \<Rightarrow> (Num 0, Num 0, Num 0) | Some p \<Rightarrow> p)
        = (Num tx, Num ty, Num tz)"
    using assms(1) by simp
  have gt: "js_gt (v_length (Num tx, Num ty, Num tz)) (Num 0)"
    using r by (simp only: len js_gt_def js_lt.simps)
  show ?thesis
    unfolding handlePointerMove_def
    by (simp only: dragMode.case tgt Let_def gt if_True ang prod.case az el)
qed

lemma orbit_update_miss:
  assumes "sphereHit ray = None"
  shows "handlePointerMove DragOrbit s ray = s"
  using assms by (simp add: handlePointerMove_def js_gt_def)

lemma near_full_turn:
  "spec_orbit_azimuth (- (5000 / 1000001)) (4999995 / 2000002) = 360"
proof -
  define q :: real where "q = 2000 / 999999"
  have q: "0 < q" by (simp add: q_def)
  have ratio: "(- (5000 / 1000001)) / (4999995 / 2000002) = - q" by (simp add: q_def)
  have at: "atan2 (- (5000 / 1000001)) (4999995 / 2000002) = - arctan q"
    unfolding atan2_def ratio by (simp add: arctan_minus)
  have pos: "0 < arctan q" using q by simp
  have "arctan q \<le> q" using q by (intro arctan_le_self) simp
  also have "q < pi / 360" using pi_ge_two by (simp add: q_def)
  finally have small: "arctan q < pi / 360" .
  define d where "d = arctan q / pi"
  have d: "0 < d" "d < 1 / 360"
    using pos small pi_gt_zero by (simp_all add: d_def pos_divide_less_eq)
  have deg: "- arctan q * 180 / pi = - (180 * d)" by (simp add: d_def)
  have w: "wrapped_degrees (- (5000 / 1000001)) (4999995 / 2000002) = 360 - 180 * d"
    unfolding wrapped_degrees_def Let_def at deg using d by simp
  have "\<bar>(360 - 180 * d) - of_int 360\<bar> < 1 / 2" using d by simp
  then have "round (360 - 180 * d) = 360" by (rule round_unique')
  then show ?thesis unfolding spec_orbit_azimuth_def w .
qed

text \<open>
  C4 (amended).  A pointer move while orbiting leaves the pose unchanged when the ray
  misses the sphere.  When it hits at a point \<open>target\<close>, the new elevation is
  \<open>clamp (round (90 - acos (clamp (target.y / |target|, -1, 1)) * 180 / \<pi>), -30, 60)\<close>,
  and the new azimuth is the degree value of \<open>atan2 target.x target.z\<close>, 360 added if
  negative, rounded to the nearest integer, and then reduced modulo 360: a value that
  rounds to 360 becomes 0.  Without the reduction the formula gives 360 for a hit just
  short of a full turn, where the pose gets 0.
\<close>

theorem C4_orbit_update:
  "(sphereHit ray = None \<longrightarrow> handlePointerMove DragOrbit s ray = s)
   \<and> (sphereHit ray = Some (Num tx, Num ty, Num tz) \<and> (tx \<noteq> 0 \<or> ty \<noteq> 0 \<or> tz \<noteq> 0) \<longrightarrow>
        handlePointerMove DragOrbit s ray =
          s\<lparr>azimuth := Num (of_int (spec_orbit_azimuth tx tz mod 360)),
            elevation := Num (spec_orbit_elevation tx ty tz)\<rparr>)"
  using orbit_update_miss [of ray s] orbit_update_hit [of ray tx ty tz s] by blast

theorem C4_orbit_update_witness:
  "handlePointerMove DragOrbit initial_settings
     \<lparr>rayOrigin = (Num 5, Num 0, Num 0), rayDir = (Num (- 1), Num 0, Num 0),
      sphereHit = Some (Num 2.5, Num 0, Num 0)\<rparr>
   = \<lparr>azimuth = Num 90, elevation = Num 0, distance = Num 1, shotType = ''medium''\<rparr>"
  using C4_orbit_update [of "\<lparr>rayOrigin = (Num 5, Num 0, Num 0), rayDir = (Num (- 1), Num 0, Num 0),
      sphereHit = Some (Num 2.5, Num 0, Num 0)\<rparr>" initial_settings "2.5" 0 0]
  by (simp add: initial_settings_def spec_orbit_azimuth_def wrapped_degrees_def atan2_def
      spec_orbit_elevation_def clamp_def)

theorem C4_azimuth_counterexample:
  "azimuth (handlePointerMove DragOrbit initial_settings
      \<lparr>rayOrigin = (Num (- (10000 / 1000001)), Num 0, Num (4999995 / 1000001)),
       rayDir = (Num (2000 / 1000001), Num 0, Num (- (999999 / 1000001))),
       sphereHit = Some (Num (- (5000 / 1000001)), Num 0, Num (4999995 / 2000002))\<rparr>) = Num 0
   \<and> spec_orbit_azimuth (- (5000 / 1000001)) (4999995 / 2000002) = 360"
proof -
  have "handlePointerMove DragOrbit initial_settings
      \<lparr>rayOrigin = (Num (- (10000 / 1000001)), Num 0, Num (4999995 / 1000001)),
       rayDir = (Num (2000 / 1000001), Num 0, Num (- (999999 / 1000001))),
       sphereHit = Some (Num (- (5000 / 1000001)), Num 0, Num (4999995 / 2000002))\<rparr>
    = initial_settings\<lparr>azimuth := Num (of_int (spec_orbit_azimuth (- (5000 / 1000001)) (4999995 / 2000002) mod 360)),
         elevation := Num (spec_orbit_elevation (- (5000 / 1000001)) 0 (4999995 / 2000002))\<rparr>"
    by (rule orbit_update_hit) simp_all
  then show ?thesis by (simp add: near_full_turn)
qed

subsection \<open>The zoom update\<close>

lemma sqrt_25_4: "sqrt (25 / 4) = 5 / 2"
  by (rule real_sqrt_unique) (simp_all add: power2_eq_square)

lemma zoom_parallel_ray:
  "handlePointerMove DragDistance
       \<lparr>azimuth = Num 0, elevation = Num 0, distance = Num 1, shotType = ''medium''\<rparr>
       \<lparr>rayOrigin = (Num 0, Num 0, Num (- 6)), rayDir = (Num 0, Num 0, Num 1), sphereHit = None\<rparr>
   = \<lparr>azimuth = Num 0, elevation = Num 0, distance = NaN, shotType = ''medium''\<rparr>"
  by (simp add: handlePointerMove_def cameraPos_def scene_radius_def VISUAL_SCALE_def
      v_normalize_def js_sub_def three_clamp_def js_min_def js_max_def inf_of_sign_def
      sqrt_25_4 Let_def)

text \<open>
  C2.  The division of the zoom update is not guarded.  With the camera at azimuth 0
  and elevation 0 (direction \<open>(0, 0, 1)\<close>) and a pointer ray along that direction,
  \<open>1 - dot * dot\<close> is 0 and so is the numerator: the quotient is NaN, the clamp
  returns NaN, and the pose's distance becomes NaN instead of staying as it was.
\<close>

theorem C2_zoom_parallel_ray_gives_NaN:
  "distance (handlePointerMove DragDistance
       \<lparr>azimuth = Num 0, elevation = Num 0, distance = Num 1, shotType = ''medium''\<rparr>
       \<lparr>rayOrigin = (Num 0, Num 0, Num (- 6)), rayDir = (Num 0, Num 0, Num 1), sphereHit = None\<rparr>)
   = NaN"
  by (simp add: zoom_parallel_ray)

subsection \<open>The pose invariant\<close>

lemma finite_numE: "finite_num x \<Longrightarrow> (\<And>r. x = Num r \<Longrightarrow> P) \<Longrightarrow> P"
  by (cases x) simp_all

lemma in_rangeE: "in_range lo hi x \<Longrightarrow> (\<And>r. x = Num r \<Longrightarrow> lo \<le> r \<Longrightarrow> r \<le> hi \<Longrightarrow> P) \<Longrightarrow> P"
  by (cases x) simp_all

lemma finite_vecE:
  "finite_vec v \<Longrightarrow> (\<And>x y z. v = (Num x, Num y, Num z) \<Longrightarrow> P) \<Longrightarrow> P"
  by (cases v rule: prod_cases3) (auto elim!: finite_numE)

lemma handleBlur_in_range:
  assumes "in_range lo hi val"
  shows "in_range lo hi (handleBlur parseFloat t val (Num lo) (Num hi))"
proof -
  obtain v where v: "val = Num v" "lo \<le> v" "v \<le> hi" using assms by (rule in_rangeE)
  then have "lo \<le> hi" by simp
  then show ?thesis
    using v by (cases "parseFloat t") (simp_all add: handleBlur_def js_min_def js_max_def Let_def)
qed

lemma three_clamp_NaN_or_in_range:
  assumes "lo \<le> hi"
  shows "js_isNaN (three_clamp x (Num lo) (Num hi)) \<or> in_range lo hi (three_clamp x (Num lo) (Num hi))"
  using assms by (cases x) (simp_all add: three_clamp_def js_min_def js_max_def)

lemma zoom_distance_NaN_or_in_range:
  "js_isNaN (distance (handlePointerMove DragDistance p ray))
   \<or> in_range 0.6 1.4 (distance (handlePointerMove DragDistance p ray))"
proof -
  have "\<exists>x. distance (handlePointerMove DragDistance p ray) = three_clamp x (Num 0.6) (Num 1.4)"
    by (simp add: handlePointerMove_def Let_def) blast
  then obtain x where "distance (handlePointerMove DragDistance p ray)
      = three_clamp x (Num 0.6) (Num 1.4)" by blast
  then show ?thesis
    using three_clamp_NaN_or_in_range [of "0.6" "1.4" x] by simp
qed

lemma spec_orbit_elevation_range:
  "- 30 \<le> spec_orbit_elevation tx ty tz \<and> spec_orbit_elevation tx ty tz \<le> 60"
  by (simp add: spec_orbit_elevation_def clamp_def [of _ "- 30" 60])

lemma mod_360_range: "0 \<le> (n::int) mod 360 \<and> n mod 360 < 360"
  by simp

lemma orbit_update_cases:
  assumes "case sphereHit ray of None \<Rightarrow> True | Some target \<Rightarrow> finite_vec target"
  shows "handlePointerMove DragOrbit p ray = p
     \<or> (\<exists>tx ty tz. handlePointerMove DragOrbit p ray =
            p\<lparr>azimuth := Num (of_int (spec_orbit_azimuth tx tz mod 360)),
              elevation := Num (spec_orbit_elevation tx ty tz)\<rparr>)"
proof (cases "sphereHit ray")
  case None
  then show ?thesis by (simp add: orbit_update_miss)
next
  case (Some target)
  then have "finite_vec target" using assms by simp
  then obtain tx ty tz where t: "target = (Num tx, Num ty, Num tz)" by (rule finite_vecE)
  show ?thesis
  proof (cases "tx \<noteq> 0 \<or> ty \<noteq> 0 \<or> tz \<noteq> 0")
    case True
    then show ?thesis using orbit_update_hit [of ray tx ty tz p] Some t by blast
  next
    case False
    then show ?thesis using Some t by (simp add: handlePointerMove_def js_gt_def)
  qed
qed

lemma orbit_update_angles:
  assumes "angles_ok p" "case sphereHit ray of None \<Rightarrow> True | Some target \<Rightarrow> finite_vec target"
  shows "angles_ok (handlePointerMove DragOrbit p ray)"
    and "distance (handlePointerMove DragOrbit p ray) = distance p"
    and "handlePointerMove DragOrbit p ray \<noteq> p \<longrightarrow>
           in_half_open 0 360 (azimuth (handlePointerMove DragOrbit p ray))"
  using orbit_update_cases [OF assms(2), of p] assms(1)
    spec_orbit_elevation_range mod_360_range
  by (auto simp: angles_ok_def)

lemma zoom_update_frame:
  "azimuth (handlePointerMove DragDistance p ray) = azimuth p"
  "elevation (handlePointerMove DragDistance p ray) = elevation p"
  "shotType (handlePointerMove DragDistance p ray) = shotType p"
  by (simp_all add: handlePointerMove_def Let_def)

lemma pointer_move_angles:
  assumes "angles_ok p" "event_ok (PointerMove mode ray)"
  shows "angles_ok (handlePointerMove mode p ray)"
proof (cases mode)
  case DragNone
  then show ?thesis using assms(1) by (simp add: handlePointerMove_def)
next
  case DragOrbit
  then show ?thesis using assms by (simp add: orbit_update_angles(1))
next
  case DragDistance
  then show ?thesis using assms(1) by (simp add: angles_ok_def zoom_update_frame)
qed

lemma pointer_move_pose:
  assumes "pose_ok p" "event_ok (PointerMove mode ray)" "\<not> left_out (PointerMove mode ray) p"
  shows "pose_ok (handlePointerMove mode p ray)"
proof (cases mode)
  case DragNone
  then show ?thesis using assms(1) by (simp add: handlePointerMove_def)
next
  case DragOrbit
  then show ?thesis
    using assms(1,2) by (simp add: pose_ok_def orbit_update_angles(1,2))
next
  case DragDistance
  then have "in_range 0.6 1.4 (distance (handlePointerMove DragDistance p ray))"
    using assms(3) zoom_distance_NaN_or_in_range [of p ray] by simp
  then show ?thesis
    using DragDistance assms(1) by (simp add: pose_ok_def angles_ok_def zoom_update_frame)
qed

lemma number_edit_angles:
  assumes "angles_ok p"
  shows "angles_ok (apply_event parseFloat (NumberEdit f str) p)"
  using assms handleBlur_in_range [of 0 360 "azimuth p" parseFloat str]
    handleBlur_in_range [of "- 30" 60 "elevation p" parseFloat str]
  by (cases f) (simp_all add: angles_ok_def)

lemma number_edit_pose:
  assumes "pose_ok p"
  shows "pose_ok (apply_event parseFloat (NumberEdit f str) p)"
  using assms number_edit_angles [of p parseFloat f str]
    handleBlur_in_range [of "0.6" "1.4" "distance p" parseFloat str]
  by (cases f) (simp_all add: pose_ok_def angles_ok_def)

lemma slider_angles:
  assumes "angles_ok p" "event_ok (Slider f v)"
  shows "angles_ok (apply_event parseFloat (Slider f v) p)"
  using assms by (cases f) (simp_all add: angles_ok_def)

lemma slider_pose:
  assumes "pose_ok p" "event_ok (Slider f v)"
  shows "pose_ok (apply_event parseFloat (Slider f v) p)"
  using assms by (cases f) (simp_all add: pose_ok_def angles_ok_def)

lemma direction_angles:
  assumes "angles_ok p" "event_ok (DirectionButton angle)"
  shows "angles_ok (apply_event parseFloat (DirectionButton angle) p)"
  using assms
  by (auto simp: angles_ok_def setGameAngle_def direction_buttons_def directions_def)

lemma shot_angles:
  assumes "angles_ok p" "event_ok (ShotButton opt)"
  shows "angles_ok (apply_event parseFloat (ShotButton opt) p)"
  using assms by (auto simp: angles_ok_def shot_button_def shotTypeOptions_def shot_tags_def)

lemma shot_pose:
  assumes "pose_ok p" "event_ok (ShotButton opt)" "\<not> left_out (ShotButton opt) p"
  shows "pose_ok (apply_event parseFloat (ShotButton opt) p)"
  using assms
  by (auto simp: pose_ok_def angles_ok_def shot_button_def shotTypeOptions_def shot_tags_def)

lemma event_angles:
  assumes "angles_ok p" "event_ok ev"
  shows "angles_ok (apply_event parseFloat ev p)"
proof (cases ev)
  case (NumberEdit f str)
  then show ?thesis using assms(1) by (simp add: number_edit_angles del: apply_event.simps)
next
  case (Slider f v)
  then show ?thesis using assms by (simp add: slider_angles del: apply_event.simps)
next
  case (DirectionButton angle)
  then show ?thesis using assms by (simp add: direction_angles del: apply_event.simps)
next
  case (ShotButton opt)
  then show ?thesis using assms by (simp add: shot_angles del: apply_event.simps)
next
  case (PointerMove mode ray)
  then show ?thesis using assms by (simp add: pointer_move_angles)
qed

lemma event_pose:
  assumes "pose_ok p" "event_ok ev" "\<not> left_out ev p"
  shows "pose_ok (apply_event parseFloat ev p)"
proof (cases ev)
  case (NumberEdit f str)
  then show ?thesis using assms(1) by (simp add: number_edit_pose del: apply_event.simps)
next
  case (Slider f v)
  then show ?thesis using assms by (simp add: slider_pose del: apply_event.simps)
next
  case (DirectionButton angle)
  then show ?thesis
    using assms direction_angles [of p angle parseFloat]
    by (simp add: pose_ok_def setGameAngle_def)
next
  case (ShotButton opt)
  then show ?thesis using assms by (simp add: shot_pose del: apply_event.simps left_out.simps event_ok.simps)
next
  case (PointerMove mode ray)
  then show ?thesis using assms by (simp add: pointer_move_pose)
qed

lemma initial_pose_ok: "pose_ok initial_settings"
  by (simp add: pose_ok_def angles_ok_def initial_settings_def shot_tags_def)

text \<open>
  C1 (amended).  The initial pose has its azimuth in \<open>[0, 360]\<close>, elevation in
  \<open>[-30, 60]\<close>, distance in \<open>[0.6, 1.4]\<close> and a shot type among the four tags.  Every
  mutation at the public interface (number field, slider, direction button, shot-type
  button, pointer move in any drag mode) of a pose with azimuth in \<open>[0, 360]\<close>,
  elevation in \<open>[-30, 60]\<close> and a tag as shot type gives such a pose again; the bound 360
  is included, since the slider and the number field accept 360, while an orbit move
  that changes the pose gives an azimuth below 360.  If the distance was in
  \<open>[0.6, 1.4]\<close> it is so afterwards as well, for every event but two kinds that are
  left out here: the shot-type button \<^verbatim>\<open>extreme\<close> (its table distance is 0.5) and a
  zoom move whose computed distance is NaN.  A zoom move always stores the outcome of
  the final clamp, so its distance is within \<open>[0.6, 1.4]\<close> whenever it is not NaN; this
  rests on the clamp alone and not on how the quotient before it is rounded.
\<close>

theorem C1_pose_invariant:
  assumes "angles_ok p" "event_ok ev"
  shows "pose_ok initial_settings
     \<and> angles_ok (apply_event parseFloat ev p)
     \<and> (pose_ok p \<and> \<not> left_out ev p \<longrightarrow> pose_ok (apply_event parseFloat ev p))
     \<and> (ev = PointerMove DragOrbit ray \<and> apply_event parseFloat ev p \<noteq> p \<longrightarrow>
          in_half_open 0 360 (azimuth (apply_event parseFloat ev p)))
     \<and> (ev = PointerMove DragDistance ray \<and> \<not> js_isNaN (distance (apply_event parseFloat ev p)) \<longrightarrow>
          in_range 0.6 1.4 (distance (apply_event parseFloat ev p)))"
proof -
  have orbit: "ev = PointerMove DragOrbit ray \<and> apply_event parseFloat ev p \<noteq> p \<longrightarrow>
          in_half_open 0 360 (azimuth (apply_event parseFloat ev p))"
    using assms orbit_update_angles(3) [of p ray] by auto
  have zoom: "ev = PointerMove DragDistance ray
        \<and> \<not> js_isNaN (distance (apply_event parseFloat ev p)) \<longrightarrow>
          in_range 0.6 1.4 (distance (apply_event parseFloat ev p))"
    using zoom_distance_NaN_or_in_range [of p ray] by auto
  show ?thesis
    using initial_pose_ok event_angles [OF assms] event_pose [of p ev parseFloat] assms(2)
      orbit zoom
    by blast
qed

theorem C1_pose_invariant_witness:
  "angles_ok initial_settings
   \<and> event_ok (ShotButton (''close'', 0.7))
   \<and> \<not> left_out (ShotButton (''close'', 0.7)) initial_settings
   \<and> pose_ok (apply_event (\<lambda>s. NaN) (ShotButton (''close'', 0.7)) initial_settings)"
  using C1_pose_invariant [of initial_settings "ShotButton (''close'', 0.7)" "\<lambda>s. NaN"
      "\<lparr>rayOrigin = (Num 0, Num 0, Num (- 6)), rayDir = (Num 0, Num 0, Num 1), sphereHit = None\<rparr>"]
  by (simp add: initial_settings_def angles_ok_def shot_tags_def shotTypeOptions_def)

theorem C1_invariant_counterexample:
  "event_ok (Slider Azimuth (Num 360))
   \<and> spec_pose_invariant initial_settings
   \<and> \<not> spec_pose_invariant (apply_event (\<lambda>s. NaN) (Slider Azimuth (Num 360)) initial_settings)
   \<and> event_ok (ShotButton (''extreme'', 0.5))
   \<and> \<not> spec_pose_invariant (apply_event (\<lambda>s. NaN) (ShotButton (''extreme'', 0.5)) initial_settings)
   \<and> \<not> spec_pose_invariant (apply_event (\<lambda>s. NaN)
        (PointerMove DragDistance
           \<lparr>rayOrigin = (Num 0, Num 0, Num (- 6)), rayDir = (Num 0, Num 0, Num 1), sphereHit = None\<rparr>)
        \<lparr>azimuth = Num 0, elevation = Num 0, distance = Num 1, shotType = ''medium''\<rparr>)"
  by (simp add: zoom_parallel_ray spec_pose_invariant_def initial_settings_def shot_tags_def
      shotTypeOptions_def shot_button_def)

end
